theory Spec2Isabelle
  imports Complex_Main "HOL-Library.Multiset"
begin

section \<open>The cumulative-proportion helper of the A/B-test notebook\<close>

text \<open>
  The notebook \<^verbatim>\<open>incubator/generalized-abcde-tests.ipynb\<close> defines one function of its own:
  \<^verbatim>\<open>
  def ECDF(data):
      x = np.sort(data)
      y = np.cumsum(x) / np.sum(x)

      return x, y
  \<close>
  and calls it on the two reference samples \<^verbatim>\<open>drug\<close> and \<^verbatim>\<open>placebo\<close>.

  Numbers are modelled as exact rationals: the rounding of binary floating point is not
  part of the model. What the model keeps of the floating-point world is the result of a
  division by zero, which in numpy is not an exception but one of the values
  \<^verbatim>\<open>inf\<close>, \<^verbatim>\<open>-inf\<close>, \<^verbatim>\<open>nan\<close>.
\<close>

datatype npfloat = Finite rat | PosInf | NegInf | NaN








text \<open>The second reference sample, 42 measurements.\<close>

definition placebo :: "rat list" where
  "placebo =
    [95, 105, 103, 99, 104, 98, 103, 104, 102, 91, 97, 101, 100, 113, 98, 102,
     100, 105, 97, 94, 104, 92, 98, 105, 106, 101, 106, 105, 101, 105, 102, 95,
     91, 99, 96, 102, 94, 93, 99, 99, 113, 96]"

text \<open>
  For comparison only, written from the usual definition and not from the notebook: the
  rank-based empirical cumulative distribution of \<open>n\<close> sorted points, whose \<open>i\<close>-th value
  (counting from 1) is \<open>i / n\<close>.
\<close>

definition rank_ecdf :: "nat \<Rightarrow> npfloat list" where
  "rank_ecdf n = map (\<lambda>i. Finite (of_nat i / of_nat n)) [1..<Suc n]"


section \<open>The Dirichlet-Multinomial cell of the microbiome notebook\<close>

text \<open>
  The second notebook of the repository builds one probabilistic model, in its last code
  cell:
  \<^verbatim>\<open>
  with pm.Model() as dirichlet_model:
      mu = pm.HalfNormal("mu", sd=100 ** 2)
      n_seq_reads = pm.Poisson("n_seq_reads", mu=mu, observed=healthy_reads.sum(axis=1))
      proportions = pm.Dirichlet("proportions", a=np.ones(3), shape=(3,))
      for i in range(healthy_reads.shape[0]):
          draws = pm.Multinomial(
              f"draws_{i}",
              n=healthy_reads[i].sum(),
              p=proportions,
              observed=healthy_reads[i, :],
          )
      dirichlet_trace = pm.sample(draws=2000)
      pm.traceplot(dirichlet_trace)
  \<close>
  No cell of the notebook binds the name \<^verbatim>\<open>healthy_reads\<close>.

  The cell is embedded statement by statement. What belongs to the interpreter is
  modelled: the global names, the order in which a statement evaluates its parts (the
  callee first, then the arguments from left to right, then the call, then the
  assignment), the exception raised when a name is not bound, and the way a
  \<^verbatim>\<open>with\<close> block hands an exception to its context manager. What belongs to
  the libraries (PyMC3, numpy, the objects they return) is not part of the repository;
  it is a parameter of the model: a function that answers each library operation, given
  the operations performed before it, with a value or with an exception.
\<close>

datatype pyval =
    PyNone
  | PyBool bool
  | PyInt int
  | PyStr string
  | PyTuple "pyval list"
  | PySlice
  | PyObj nat

text \<open>An exception: the name of its class and its argument.\<close>

datatype exn = Exn (exn_class: string) (exn_arg: string)

text \<open>
  The operations the cell asks of objects it did not create itself: reading an attribute,
  calling with positional and keyword arguments, subscripting, iterating to exhaustion,
  formatting inside an f-string, testing for truth, entering and leaving a context.
\<close>

datatype libop =
    GetAttr pyval string
  | Call pyval "pyval list" "(string \<times> pyval) list"
  | GetItem pyval pyval
  | Iter pyval
  | Format pyval
  | Truth pyval
  | Enter pyval
  | Exit pyval "exn option"

type_synonym library = "libop list \<Rightarrow> libop \<Rightarrow> exn + pyval"

record pystate =
  globals :: "string \<Rightarrow> pyval option"
  history :: "libop list"

type_synonym 'a py = "pystate \<Rightarrow> (exn + 'a) \<times> pystate"

definition py_return :: "'a \<Rightarrow> 'a py" where
  "py_return v s = (Inr v, s)"

definition py_raise :: "exn \<Rightarrow> 'a py" where
  "py_raise e s = (Inl e, s)"

definition py_bind :: "'a py \<Rightarrow> ('a \<Rightarrow> 'b py) \<Rightarrow> 'b py" where
  "py_bind m f s = (case m s of (Inl e, s') \<Rightarrow> (Inl e, s') | (Inr v, s') \<Rightarrow> f v s')"

definition load_name :: "string \<Rightarrow> pyval py" where
  \<comment> \<open>reading a name that is not bound raises \<^verbatim>\<open>NameError\<close>\<close>
  "load_name n s =
     (case globals s n of
        None \<Rightarrow> (Inl (Exn ''NameError'' n), s)
      | Some v \<Rightarrow> (Inr v, s))"

definition store_name :: "string \<Rightarrow> pyval \<Rightarrow> unit py" where
  "store_name n v s = (Inr (), s\<lparr>globals := (globals s)(n \<mapsto> v)\<rparr>)"

definition perform :: "library \<Rightarrow> libop \<Rightarrow> pyval py" where
  \<comment> \<open>a library operation: answered by the library, recorded in the history\<close>
  "perform lib x s = (lib (history s) x, s\<lparr>history := history s @ [x]\<rparr>)"

definition load_attr :: "library \<Rightarrow> string \<Rightarrow> string \<Rightarrow> pyval py" where
  \<comment> \<open>\<^verbatim>\<open>name.attribute\<close>\<close>
  "load_attr lib n a = py_bind (load_name n) (\<lambda>v. perform lib (GetAttr v a))"

fun py_truth :: "library \<Rightarrow> pyval \<Rightarrow> bool py" where
  "py_truth lib PyNone = py_return False"
| "py_truth lib (PyBool b) = py_return b"
| "py_truth lib (PyInt i) = py_return (i \<noteq> 0)"
| "py_truth lib (PyStr s) = py_return (s \<noteq> [])"
| "py_truth lib (PyTuple vs) = py_return (vs \<noteq> [])"
| "py_truth lib PySlice = py_return True"
| "py_truth lib (PyObj k) =
     py_bind (perform lib (Truth (PyObj k)))
       (\<lambda>r. case r of
               PyBool b \<Rightarrow> py_return b
             | _ \<Rightarrow> py_raise (Exn ''TypeError'' ''__bool__ should return bool''))"

definition py_format :: "library \<Rightarrow> pyval \<Rightarrow> string py" where
  "py_format lib v =
     py_bind (perform lib (Format v))
       (\<lambda>r. case r of
               PyStr s \<Rightarrow> py_return s
             | _ \<Rightarrow> py_raise (Exn ''TypeError'' ''__format__ must return a str''))"

definition py_iter :: "library \<Rightarrow> pyval \<Rightarrow> pyval list py" where
  \<comment> \<open>the items an iterable yields; the model takes them all at once, so they are finitely many\<close>
  "py_iter lib v =
     py_bind (perform lib (Iter v))
       (\<lambda>r. case r of
               PyTuple items \<Rightarrow> py_return items
             | _ \<Rightarrow> py_raise (Exn ''TypeError'' ''object is not iterable''))"

fun py_for :: "'a list \<Rightarrow> ('a \<Rightarrow> unit py) \<Rightarrow> unit py" where
  "py_for [] body = py_return ()"
| "py_for (x # xs) body = py_bind (body x) (\<lambda>_. py_for xs body)"

fun py_seq :: "unit py list \<Rightarrow> unit py" where
  "py_seq [] = py_return ()"
| "py_seq (m # ms) = py_bind m (\<lambda>_. py_seq ms)"

text \<open>
  \<^verbatim>\<open>with E as target: body\<close>. The manager is entered, the value it returns is bound to
  the target and the body runs. When the body raises, the manager's exit receives the
  exception and the exception goes on unless the exit returns a true value.
\<close>

definition py_with :: "library \<Rightarrow> pyval py \<Rightarrow> string \<Rightarrow> unit py \<Rightarrow> unit py" where
  "py_with lib mgr_expr target body =
     py_bind mgr_expr (\<lambda>mgr.
     py_bind (perform lib (Enter mgr)) (\<lambda>v.
     py_bind (store_name target v) (\<lambda>_ s.
       case body s of
         (Inr u, s') \<Rightarrow> py_bind (perform lib (Exit mgr None)) (\<lambda>_. py_return ()) s'
       | (Inl e, s') \<Rightarrow>
           py_bind (perform lib (Exit mgr (Some e))) (\<lambda>r.
           py_bind (py_truth lib r) (\<lambda>suppress.
           if suppress then py_return () else py_raise e)) s')))"

text \<open>\<^verbatim>\<open>mu = pm.HalfNormal("mu", sd=100 ** 2)\<close>\<close>

definition stmt_mu :: "library \<Rightarrow> unit py" where
  "stmt_mu lib =
     py_bind (load_attr lib ''pm'' ''HalfNormal'') (\<lambda>f.
     py_bind (perform lib (Call f [PyStr ''mu''] [(''sd'', PyInt (100 ^ 2))])) (\<lambda>v.
     store_name ''mu'' v))"

text \<open>\<^verbatim>\<open>n_seq_reads = pm.Poisson("n_seq_reads", mu=mu, observed=healthy_reads.sum(axis=1))\<close>\<close>

definition stmt_n_seq_reads :: "library \<Rightarrow> unit py" where
  "stmt_n_seq_reads lib =
     py_bind (load_attr lib ''pm'' ''Poisson'') (\<lambda>f.
     py_bind (load_name ''mu'') (\<lambda>mu.
     py_bind (load_attr lib ''healthy_reads'' ''sum'') (\<lambda>g.
     py_bind (perform lib (Call g [] [(''axis'', PyInt 1)])) (\<lambda>obs.
     py_bind (perform lib
        (Call f [PyStr ''n_seq_reads''] [(''mu'', mu), (''observed'', obs)])) (\<lambda>v.
     store_name ''n_seq_reads'' v)))))"

text \<open>\<^verbatim>\<open>proportions = pm.Dirichlet("proportions", a=np.ones(3), shape=(3,))\<close>\<close>

definition stmt_proportions :: "library \<Rightarrow> unit py" where
  "stmt_proportions lib =
     py_bind (load_attr lib ''pm'' ''Dirichlet'') (\<lambda>f.
     py_bind (load_attr lib ''np'' ''ones'') (\<lambda>g.
     py_bind (perform lib (Call g [PyInt 3] [])) (\<lambda>a.
     py_bind (perform lib
        (Call f [PyStr ''proportions''] [(''a'', a), (''shape'', PyTuple [PyInt 3])])) (\<lambda>v.
     store_name ''proportions'' v))))"

text \<open>
  The body of the loop:
  \<^verbatim>\<open>draws = pm.Multinomial(f"draws_{i}", n=healthy_reads[i].sum(), p=proportions,
                         observed=healthy_reads[i, :])\<close>
\<close>

definition stmt_draws :: "library \<Rightarrow> unit py" where
  "stmt_draws lib =
     py_bind (load_attr lib ''pm'' ''Multinomial'') (\<lambda>f.
     py_bind (load_name ''i'') (\<lambda>i0.
     py_bind (py_format lib i0) (\<lambda>suffix.
     py_bind (load_name ''healthy_reads'') (\<lambda>h1.
     py_bind (load_name ''i'') (\<lambda>i1.
     py_bind (perform lib (GetItem h1 i1)) (\<lambda>row.
     py_bind (perform lib (GetAttr row ''sum'')) (\<lambda>g.
     py_bind (perform lib (Call g [] [])) (\<lambda>n.
     py_bind (load_name ''proportions'') (\<lambda>p.
     py_bind (load_name ''healthy_reads'') (\<lambda>h2.
     py_bind (load_name ''i'') (\<lambda>i2.
     py_bind (perform lib (GetItem h2 (PyTuple [i2, PySlice]))) (\<lambda>obs.
     py_bind (perform lib
        (Call f [PyStr (''draws_'' @ suffix)]
           [(''n'', n), (''p'', p), (''observed'', obs)])) (\<lambda>v.
     store_name ''draws'' v)))))))))))))"

text \<open>\<^verbatim>\<open>for i in range(healthy_reads.shape[0]): ...\<close>\<close>

definition stmt_for_i :: "library \<Rightarrow> unit py" where
  "stmt_for_i lib =
     py_bind (load_name ''range'') (\<lambda>r.
     py_bind (load_attr lib ''healthy_reads'' ''shape'') (\<lambda>shape.
     py_bind (perform lib (GetItem shape (PyInt 0))) (\<lambda>n.
     py_bind (perform lib (Call r [n] [])) (\<lambda>rng.
     py_bind (py_iter lib rng) (\<lambda>items.
     py_for items (\<lambda>item. py_bind (store_name ''i'' item) (\<lambda>_. stmt_draws lib)))))))"

text \<open>\<^verbatim>\<open>dirichlet_trace = pm.sample(draws=2000)\<close>\<close>

definition stmt_dirichlet_trace :: "library \<Rightarrow> unit py" where
  "stmt_dirichlet_trace lib =
     py_bind (load_attr lib ''pm'' ''sample'') (\<lambda>f.
     py_bind (perform lib (Call f [] [(''draws'', PyInt 2000)])) (\<lambda>v.
     store_name ''dirichlet_trace'' v))"

text \<open>\<^verbatim>\<open>pm.traceplot(dirichlet_trace)\<close>\<close>

definition stmt_traceplot :: "library \<Rightarrow> unit py" where
  "stmt_traceplot lib =
     py_bind (load_attr lib ''pm'' ''traceplot'') (\<lambda>f.
     py_bind (load_name ''dirichlet_trace'') (\<lambda>t.
     py_bind (perform lib (Call f [t] [])) (\<lambda>_. py_return ())))"

text \<open>The whole cell.\<close>

definition dirichlet_model :: "library \<Rightarrow> unit py" where
  "dirichlet_model lib =
     py_with lib
       (py_bind (load_attr lib ''pm'' ''Model'') (\<lambda>f. perform lib (Call f [] [])))
       ''dirichlet_model''
       (py_seq [stmt_mu lib, stmt_n_seq_reads lib, stmt_proportions lib, stmt_for_i lib,
                stmt_dirichlet_trace lib, stmt_traceplot lib])"

text \<open>
  Sampling starts with the call of \<^verbatim>\<open>pm.sample\<close>, and the cell can only call it after
  it has read the attribute \<^verbatim>\<open>sample\<close>. The number of such reads in the history
  therefore bounds the number of sampling runs started.
\<close>

fun is_sample_access :: "libop \<Rightarrow> bool" where
  "is_sample_access (GetAttr v a) = (a = ''sample'')"
| "is_sample_access _ = False"

definition sample_accesses :: "pystate \<Rightarrow> nat" where
  "sample_accesses s = length (filter is_sample_access (history s))"

text \<open>
  A concrete run. The global names are those the cells above the model bind when each of
  them completes: the imports, the table \<^verbatim>\<open>microbiome\<close>, the metadata dictionary and
  the lists and loop variables used to fill it, the file handle, the reloaded metadata and
  the column list, together with the builtin \<^verbatim>\<open>range\<close>. Objects of the libraries
  are opaque handles. The library of this run lets every operation succeed with a fresh
  object, and the exit of a context returns \<^verbatim>\<open>None\<close>, as a context manager that does
  not handle exceptions does.
\<close>

definition notebook_globals :: "(string \<times> pyval) list" where
  "notebook_globals =
     [(''range'', PyObj 0), (''pd'', PyObj 1), (''pm'', PyObj 2), (''np'', PyObj 3),
      (''plt'', PyObj 4), (''war'', PyObj 5), (''microbiome'', PyObj 6),
      (''defaultdict'', PyObj 7), (''md'', PyObj 8), (''sex'', PyObj 9),
      (''donor'', PyObj 10), (''diet'', PyObj 11), (''source'', PyObj 12),
      (''collection_met'', PyObj 13), (''i'', PyInt 1), (''s'', PyStr ''Cecum''),
      (''d'', PyStr ''Human''), (''c'', PyStr ''Scraping''), (''yaml'', PyObj 14),
      (''f'', PyObj 15), (''metadata'', PyObj 16), (''otu_cols'', PyObj 17)]"

definition notebook_state :: pystate where
  "notebook_state = \<lparr>globals = map_of notebook_globals, history = []\<rparr>"

definition stub_library :: library where
  "stub_library h x =
     (case x of
        Exit m e \<Rightarrow> Inr PyNone
      | _ \<Rightarrow> Inr (PyObj (100 + length h)))"


section \<open>Properties of the cumulative-proportion helper\<close>










lemma length_rank_ecdf: "length (rank_ecdf n) = n"
  by (simp add: rank_ecdf_def)









section \<open>Properties of the Dirichlet-Multinomial cell\<close>

lemmas py_defs =
  py_bind_def py_return_def py_raise_def load_name_def store_name_def perform_def
  load_attr_def

lemmas cell_prefix_defs =
  dirichlet_model_def py_with_def stmt_mu_def stmt_n_seq_reads_def

text \<open>
  Two facts about the interpreter, for any cell: reading an unbound name raises and leaves
  the state as it is, and a sequence of statements stops at the first one that raises, in
  the state that statement left, whatever follows it.
\<close>

lemma load_name_unbound:
  "globals s n = None \<Longrightarrow> load_name n s = (Inl (Exn ''NameError'' n), s)"
  by (simp add: load_name_def)

lemma py_seq_stops:
  assumes "py_seq pre s = (Inr (), s1)" and "bad s1 = (Inl e, s2)"
  shows "py_seq (pre @ bad # post) s = (Inl e, s2)"
  using assms
proof (induction pre arbitrary: s)
  case Nil
  then show ?case by (simp add: py_bind_def py_return_def)
next
  case (Cons m ms)
  obtain r s' where m: "m s = (r, s')" by (cases "m s")
  with Cons.prems(1) obtain u where r: "r = Inr u"
    by (cases r) (simp_all add: py_bind_def)
  from Cons.prems(1) m r have "py_seq ms s' = (Inr (), s1)"
    by (simp add: py_bind_def)
  from Cons.IH [OF this Cons.prems(2)] m r show ?case
    by (simp add: py_bind_def)
qed

text \<open>
  The second declaration cannot complete while \<^verbatim>\<open>healthy_reads\<close> is not bound: it
  raises, and when the names and the attribute it reads first are there, what it raises is
  the \<^verbatim>\<open>NameError\<close>. The first declaration binds no name but \<^verbatim>\<open>mu\<close>.
\<close>

lemma stmt_n_seq_reads_raises:
  assumes "globals s ''healthy_reads'' = None"
  shows "\<exists>e. fst (stmt_n_seq_reads lib s) = Inl e"
  using assms
  by (auto simp: stmt_n_seq_reads_def py_defs split: option.splits sum.splits)

lemma stmt_n_seq_reads_NameError:
  assumes "globals s ''healthy_reads'' = None"
    and "globals s ''pm'' = Some pm" and "globals s ''mu'' = Some mu"
    and "lib (history s) (GetAttr pm ''Poisson'') = Inr f"
  shows "fst (stmt_n_seq_reads lib s) = Inl (Exn ''NameError'' ''healthy_reads'')"
  using assms by (simp add: stmt_n_seq_reads_def py_defs)

lemma stmt_mu_keeps_unbound:
  assumes "globals s ''healthy_reads'' = None"
  shows "globals (snd (stmt_mu lib s)) ''healthy_reads'' = None"
  using assms
  by (auto simp: stmt_mu_def py_defs split: option.splits sum.splits)

lemma dirichlet_model_raises:
  assumes "globals s ''healthy_reads'' = None"
    and "\<forall>h m e. lib h (Exit m e) = Inr PyNone"
  shows "\<exists>e. fst (dirichlet_model lib s) = Inl e"
  using assms
  by (auto simp: cell_prefix_defs py_defs split: option.splits sum.splits prod.splits)

lemma dirichlet_model_no_sampling:
  assumes "globals s ''healthy_reads'' = None"
    and "\<forall>h m e. lib h (Exit m e) = Inr PyNone"
  shows "sample_accesses (snd (dirichlet_model lib s)) = sample_accesses s"
  using assms
  by (auto simp: cell_prefix_defs py_defs sample_accesses_def
           split: option.splits sum.splits prod.splits)

lemma dirichlet_model_NameError:
  assumes "globals s ''healthy_reads'' = None"
    and "\<forall>h m e. lib h (Exit m e) = Inr PyNone"
    and "\<forall>h x e. lib h x \<noteq> Inl e"
    and "globals s ''pm'' \<noteq> None"
  shows "fst (dirichlet_model lib s) = Inl (Exn ''NameError'' ''healthy_reads'')
       \<and> globals (snd (dirichlet_model lib s)) ''mu'' \<noteq> None"
  using assms
  by (auto simp: cell_prefix_defs py_defs split: option.splits sum.splits prod.splits)

text \<open>
  Claim C6, as the code has it. The repository's model specification with an unresolved
  reference is the Dirichlet-Multinomial cell. Whenever \<^verbatim>\<open>healthy_reads\<close> is not
  bound and the model context hands exceptions on (its exit returns \<^verbatim>\<open>None\<close>), the
  cell ends with an exception while the model is being built, and it never reads
  \<^verbatim>\<open>pm.sample\<close>: no sampling is started. When moreover \<^verbatim>\<open>pm\<close> is bound and no
  library operation raises, the exception is Python's \<^verbatim>\<open>NameError\<close> for
  \<^verbatim>\<open>healthy_reads\<close>, raised by the second declaration, after \<^verbatim>\<open>mu\<close> has been
  declared and bound. The code has no error class of its own for this.
\<close>

theorem dirichlet_model_unresolved_reference:
  assumes "globals s ''healthy_reads'' = None"
    and "\<forall>h m e. lib h (Exit m e) = Inr PyNone"
  shows "(\<exists>e. fst (dirichlet_model lib s) = Inl e)
       \<and> sample_accesses (snd (dirichlet_model lib s)) = sample_accesses s
       \<and> (globals s ''pm'' \<noteq> None \<and> (\<forall>h x e. lib h x \<noteq> Inl e) \<longrightarrow>
            fst (dirichlet_model lib s) = Inl (Exn ''NameError'' ''healthy_reads'')
            \<and> globals (snd (dirichlet_model lib s)) ''mu'' \<noteq> None)"
  using dirichlet_model_raises [OF assms] dirichlet_model_no_sampling [OF assms]
    dirichlet_model_NameError [OF assms]
  by blast

text \<open>
  The theorem at the concrete run: the names the notebook has bound when the cell starts,
  and a library in which every operation succeeds.
\<close>

theorem dirichlet_model_unresolved_reference_witness:
  "globals notebook_state ''healthy_reads'' = None
   \<and> globals notebook_state ''pm'' = Some (PyObj 2)
   \<and> fst (dirichlet_model stub_library notebook_state) = Inl (Exn ''NameError'' ''healthy_reads'')
   \<and> sample_accesses (snd (dirichlet_model stub_library notebook_state)) = 0
   \<and> globals (snd (dirichlet_model stub_library notebook_state)) ''mu'' \<noteq> None"
proof -
  have unbound: "globals notebook_state ''healthy_reads'' = None"
    by (simp add: notebook_state_def notebook_globals_def)
  have exit: "\<forall>h m e. stub_library h (Exit m e) = Inr PyNone"
    by (simp add: stub_library_def)
  have pm: "globals notebook_state ''pm'' = Some (PyObj 2)"
    by (simp add: notebook_state_def notebook_globals_def)
  have ok: "\<forall>h x e. stub_library h x \<noteq> Inl e"
    by (simp add: stub_library_def split: libop.splits)
  have start: "sample_accesses notebook_state = 0"
    by (simp add: sample_accesses_def notebook_state_def)
  from dirichlet_model_unresolved_reference [OF unbound exit] pm ok start
  show ?thesis using unbound by simp
qed

text \<open>
  Claim C6, as the specification words it, asks for a \<^verbatim>\<open>ModelSpecificationError\<close>.
  In the concrete run the cell ends with \<^verbatim>\<open>NameError\<close>, and with no exception of the
  class the specification names. The history shows what had been executed by then: the
  model was created and entered, \<^verbatim>\<open>mu\<close> was declared, the distribution
  \<^verbatim>\<open>pm.Poisson\<close> was looked up, and the context was left with the exception.
\<close>

theorem dirichlet_model_error_class_counterexample:
  "fst (dirichlet_model stub_library notebook_state) = Inl (Exn ''NameError'' ''healthy_reads'')
   \<and> \<not> (\<exists>arg. fst (dirichlet_model stub_library notebook_state) =
              Inl (Exn ''ModelSpecificationError'' arg))
   \<and> history (snd (dirichlet_model stub_library notebook_state)) =
       [GetAttr (PyObj 2) ''Model'', Call (PyObj 100) [] [], Enter (PyObj 101),
        GetAttr (PyObj 2) ''HalfNormal'',
        Call (PyObj 103) [PyStr ''mu''] [(''sd'', PyInt 10000)],
        GetAttr (PyObj 2) ''Poisson'',
        Exit (PyObj 101) (Some (Exn ''NameError'' ''healthy_reads''))]"
  by (simp add: cell_prefix_defs py_defs notebook_state_def notebook_globals_def
        stub_library_def)

end
